theory Spec2Isabelle
  imports Complex_Main "HOL-Library.Sublist"
begin

section \<open>The values of the language\<close>

subsection \<open>Strings\<close>

text \<open>
  A string of the program is modelled by the bytes of its UTF-8 encoding, a lone
  surrogate code unit \<open>U+D800..U+DFFF\<close> being written as the three bytes
  \<open>ED A0..BF 80..BF\<close> it would have in generalised UTF-8. Every string literal of
  the source is ASCII, and every concatenation of the source joins its operands at an
  ASCII character, so \<open>@\<close> is the source's concatenation, \<open>prefix\<close> its
  \<open>startsWith\<close> for an ASCII pattern and \<open>sublist\<close> its \<open>includes\<close>.
\<close>

definition surrogate_lead :: "char \<Rightarrow> char \<Rightarrow> bool" where
  "surrogate_lead c1 c2 = ((of_char c1 :: nat) = 0xED \<and> (0xA0 :: nat) \<le> of_char c2)"

fun lone_surrogate :: "string \<Rightarrow> bool" where
  "lone_surrogate (c1 # c2 # cs) = (surrogate_lead c1 c2 \<or> lone_surrogate (c2 # cs))"
| "lone_surrogate cs = False"

text \<open>Conversion to a scalar value string: a lone surrogate becomes \<open>U+FFFD\<close>.\<close>

fun to_USVString :: "string \<Rightarrow> string" where
  "to_USVString (c1 # c2 # c3 # cs) =
     (if surrogate_lead c1 c2 then [CHR 0xEF, CHR 0xBF, CHR 0xBD] @ to_USVString cs
      else c1 # to_USVString (c2 # c3 # cs))"
| "to_USVString cs = cs"

definition hex_upper :: "nat \<Rightarrow> char" where
  "hex_upper d = ''0123456789ABCDEF'' ! (d mod 16)"

definition hex_lower :: "nat \<Rightarrow> char" where
  "hex_lower d = ''0123456789abcdef'' ! (d mod 16)"

fun join :: "string \<Rightarrow> string list \<Rightarrow> string" where
  "join sep [] = []"
| "join sep [x] = x"
| "join sep (x # y # ys) = x @ sep @ join sep (y # ys)"

text \<open>Truthiness of an optional string: \<open>undefined\<close> and the empty string are falsy.\<close>

definition truthy :: "string option \<Rightarrow> bool" where
  "truthy v = (case v of None \<Rightarrow> False | Some s \<Rightarrow> s \<noteq> [])"

subsection \<open>Numbers\<close>

text \<open>
  A number is an IEEE 754 binary64 value: \<open>Finite s m\<close> has sign \<open>s\<close> (true for
  negative) and magnitude \<open>m\<close>, a rational that a binary64 represents (zero included, with
  its sign); \<open>Infinity s\<close> is the signed infinity. Arithmetic computes the exact rational
  result and rounds it to the nearest binary64, ties to even.
\<close>

datatype number = NaN | Infinity bool | Finite bool rat

fun digits_in :: "nat \<Rightarrow> nat \<Rightarrow> nat" where
  "digits_in b n = (if n = 0 \<or> b < 2 then 0 else Suc (digits_in b (n div b)))"

text \<open>The exponent \<open>e\<close> of a positive rational in base \<open>b\<close>: \<open>b^e \<le> m < b^(e+1)\<close>.\<close>

definition exponent_of :: "nat \<Rightarrow> rat \<Rightarrow> int" where
  "exponent_of b m =
     (if 1 \<le> m then int (digits_in b (nat \<lfloor>m\<rfloor>)) - 1
      else - int (digits_in b (nat (\<lceil>1 / m\<rceil> - 1))))"

definition half_even :: "rat \<Rightarrow> int" where
  "half_even q =
     (let f = \<lfloor>q\<rfloor>; d = q - of_int f
      in if d < 1 / 2 then f else if 1 / 2 < d then f + 1 else if even f then f else f + 1)"

text \<open>\<open>scale b x i\<close> is \<open>x * b^i\<close>, for an exponent of either sign.\<close>

definition scale :: "nat \<Rightarrow> rat \<Rightarrow> int \<Rightarrow> rat" where
  "scale b x i = (if 0 \<le> i then x * of_nat b ^ nat i else x / of_nat b ^ nat (- i))"

text \<open>
  Rounding a magnitude: with \<open>e\<close> its binary exponent (at least that of the
  subnormals), the magnitude is rounded to a multiple of \<open>2^(e-52)\<close>; a result of
  \<open>2^1024\<close> or more overflows.
\<close>

definition round_binary64 :: "bool \<Rightarrow> rat \<Rightarrow> number" where
  "round_binary64 s m =
     (if m = 0 then Finite s 0
      else let e = max (exponent_of 2 m) (- 1022);
               r = scale 2 (of_int (half_even (scale 2 m (52 - e)))) (e - 52)
           in if 2 ^ 1024 \<le> r then Infinity s else Finite s r)"

definition signed :: "bool \<Rightarrow> rat \<Rightarrow> rat" where
  "signed s m = (if s then - m else m)"

fun js_add :: "number \<Rightarrow> number \<Rightarrow> number" where
  "js_add (Finite s m) (Finite t n) =
     (let v = signed s m + signed t n
      in if v = 0 then Finite (s \<and> t) 0 else round_binary64 (v < 0) \<bar>v\<bar>)"
| "js_add (Infinity s) (Infinity t) = (if s = t then Infinity s else NaN)"
| "js_add (Infinity s) (Finite t n) = Infinity s"
| "js_add (Finite s m) (Infinity t) = Infinity t"
| "js_add NaN y = NaN"
| "js_add x NaN = NaN"

fun js_negate :: "number \<Rightarrow> number" where
  "js_negate (Finite s m) = Finite (\<not> s) m"
| "js_negate (Infinity s) = Infinity (\<not> s)"
| "js_negate NaN = NaN"

definition js_subtract :: "number \<Rightarrow> number \<Rightarrow> number" where
  "js_subtract x y = js_add x (js_negate y)"

fun js_multiply :: "number \<Rightarrow> number \<Rightarrow> number" where
  "js_multiply (Finite s m) (Finite t n) = round_binary64 (s \<noteq> t) (m * n)"
| "js_multiply (Infinity s) (Infinity t) = Infinity (s \<noteq> t)"
| "js_multiply (Infinity s) (Finite t n) = (if n = 0 then NaN else Infinity (s \<noteq> t))"
| "js_multiply (Finite s m) (Infinity t) = (if m = 0 then NaN else Infinity (s \<noteq> t))"
| "js_multiply NaN y = NaN"
| "js_multiply x NaN = NaN"

fun js_divide :: "number \<Rightarrow> number \<Rightarrow> number" where
  "js_divide (Finite s m) (Finite t n) =
     (if n = 0 then (if m = 0 then NaN else Infinity (s \<noteq> t))
      else round_binary64 (s \<noteq> t) (m / n))"
| "js_divide (Infinity s) (Infinity t) = NaN"
| "js_divide (Infinity s) (Finite t n) = Infinity (s \<noteq> t)"
| "js_divide (Finite s m) (Infinity t) = Finite (s \<noteq> t) 0"
| "js_divide NaN y = NaN"
| "js_divide x NaN = NaN"

text \<open>The operator \<open>===\<close> on numbers: the two zeros are equal, \<open>NaN\<close> equals nothing.\<close>

fun strict_equals :: "number \<Rightarrow> number \<Rightarrow> bool" where
  "strict_equals (Finite s m) (Finite t n) = (m = n \<and> (m = 0 \<or> s = t))"
| "strict_equals (Infinity s) (Infinity t) = (s = t)"
| "strict_equals x y = False"

text \<open>The decimal digits of a natural number.\<close>

definition digit :: "nat \<Rightarrow> char" where
  "digit d = ''0123456789'' ! (d mod 10)"

fun decimal :: "nat \<Rightarrow> string" where
  "decimal n = (if n < 10 then [digit n] else decimal (n div 10) @ [digit (n mod 10)])"

text \<open>
  \<open>Number::toString\<close> in radix 10 takes the least number \<open>k\<close> of digits for which some
  \<open>s\<close> of \<open>k\<close> digits has \<open>s * 10^(n-k)\<close> round to the number, and of these the
  \<open>s\<close> nearest to it. \<open>digits_for\<close> tries the two integers around the scaled value.
\<close>

definition digits_for :: "rat \<Rightarrow> int \<Rightarrow> nat \<Rightarrow> int option" where
  "digits_for m n k =
     (let y = scale 10 m (int k - n); lo = \<lfloor>y\<rfloor>; hi = \<lceil>y\<rceil>;
          below = y - of_int lo; above = of_int hi - y
      in find (\<lambda>s. round_binary64 False (scale 10 (of_int s) (n - int k)) = Finite False m)
           (if below < above \<or> (below = above \<and> even lo) then [lo, hi] else [hi, lo]))"

fun shortest :: "rat \<Rightarrow> int \<Rightarrow> nat list \<Rightarrow> int \<times> nat \<times> int" where
  "shortest m n [] = (\<lfloor>scale 10 m (17 - n)\<rfloor>, 17, n)"
| "shortest m n (k # ks) =
     (case digits_for m n k of
        None \<Rightarrow> shortest m n ks
      | Some s \<Rightarrow> if s = 10 ^ k then (10 ^ (k - 1), k, n + 1) else (s, k, n))"

text \<open>
  The digits \<open>s\<close> (there are \<open>k\<close> of them) with the decimal point after the first
  \<open>n\<close>: plain notation for \<open>-5 \<le> n \<le> 21\<close>, exponent notation otherwise.
\<close>

definition format_digits :: "int \<Rightarrow> nat \<Rightarrow> int \<Rightarrow> string" where
  "format_digits s k n =
     (let ds = decimal (nat s) in
      if - 5 \<le> n \<and> n \<le> 21 then
        (if int k \<le> n then ds @ replicate (nat (n - int k)) (CHR ''0'')
         else if 0 < n then take (nat n) ds @ ''.'' @ drop (nat n) ds
         else ''0.'' @ replicate (nat (- n)) (CHR ''0'') @ ds)
      else
        (let e = n - 1;
             ex = (if e < 0 then ''-'' else ''+'') @ decimal (nat \<bar>e\<bar>)
         in if k = 1 then ds @ ''e'' @ ex
            else take 1 ds @ ''.'' @ drop 1 ds @ ''e'' @ ex))"

definition Number_toString :: "number \<Rightarrow> string" where
  "Number_toString x =
     (case x of
        NaN \<Rightarrow> ''NaN''
      | Infinity s \<Rightarrow> (if s then ''-Infinity'' else ''Infinity'')
      | Finite sg m \<Rightarrow>
          if m = 0 then ''0''
          else (if sg then ''-'' else []) @
            (case shortest m (exponent_of 10 m + 1) [1..<18] of
               (s, k, n) \<Rightarrow> format_digits s k n))"

text \<open>A numeric literal of the source, such as \<open>10\<close>, \<open>1\<close> and \<open>0\<close>.\<close>

definition literal :: "nat \<Rightarrow> number" where
  "literal n = round_binary64 False (of_nat n)"



subsection \<open>JSON values\<close>

text \<open>
  A parsed JSON value. An object lists its properties in the order the language
  enumerates them, each key once.
\<close>

datatype json =
    JNull
  | JBool bool
  | JNumber number
  | JString string
  | JArray "json list"
  | JObject "(string \<times> json) list"

definition quote_char :: "char \<Rightarrow> string" where
  "quote_char c =
     (let n = (of_char c :: nat) in
      if n = 0x08 then [CHR 0x5C, CHR ''b'']
      else if n = 0x09 then [CHR 0x5C, CHR ''t'']
      else if n = 0x0A then [CHR 0x5C, CHR ''n'']
      else if n = 0x0C then [CHR 0x5C, CHR ''f'']
      else if n = 0x0D then [CHR 0x5C, CHR ''r'']
      else if n = 0x22 then [CHR 0x5C, CHR 0x22]
      else if n = 0x5C then [CHR 0x5C, CHR 0x5C]
      else if n < 0x20 then [CHR 0x5C, CHR ''u'', CHR ''0'', CHR ''0'', hex_lower (n div 16), hex_lower n]
      else [c])"

fun quote_chars :: "string \<Rightarrow> string" where
  "quote_chars (c1 # c2 # c3 # cs) =
     (if surrogate_lead c1 c2
      then [CHR 0x5C, CHR ''u'', CHR ''d'', hex_lower (of_char c2 div 4),
            hex_lower ((of_char c2 mod 4) * 4 + (of_char c3 div 16) mod 4), hex_lower (of_char c3)]
           @ quote_chars cs
      else quote_char c1 @ quote_chars (c2 # c3 # cs))"
| "quote_chars (c # cs) = quote_char c @ quote_chars cs"
| "quote_chars [] = []"

definition QuoteJSONString :: "string \<Rightarrow> string" where
  "QuoteJSONString s = [CHR 0x22] @ quote_chars s @ [CHR 0x22]"

text \<open>
  \<open>JSON.stringify(value, null, space)\<close> on a JSON value: \<open>gap\<close> is the indentation
  unit (\<open>space\<close> blanks, empty when no \<open>space\<close> is given) and \<open>indent\<close> the
  indentation of the enclosing line.
\<close>

fun serialize :: "string \<Rightarrow> string \<Rightarrow> json \<Rightarrow> string" where
  "serialize gap indent JNull = ''null''"
| "serialize gap indent (JBool b) = (if b then ''true'' else ''false'')"
| "serialize gap indent (JNumber x) =
     (case x of Finite s m \<Rightarrow> Number_toString x | _ \<Rightarrow> ''null'')"
| "serialize gap indent (JString s) = QuoteJSONString s"
| "serialize gap indent (JArray xs) =
     (let inner = indent @ gap;
          partial = map (serialize gap inner) xs
      in if partial = [] then ''[]''
         else if gap = [] then ''['' @ join '','' partial @ '']''
         else ''['' @ [CHR 0x0A] @ inner @ join ('','' @ [CHR 0x0A] @ inner) partial
              @ [CHR 0x0A] @ indent @ '']'')"
| "serialize gap indent (JObject kvs) =
     (let inner = indent @ gap;
          partial = map (\<lambda>kv. QuoteJSONString (fst kv) @ '':'' @ (if gap = [] then [] else '' '')
                                @ serialize gap inner (snd kv)) kvs
      in if partial = [] then ''{}''
         else if gap = [] then ''{'' @ join '','' partial @ ''}''
         else ''{'' @ [CHR 0x0A] @ inner @ join ('','' @ [CHR 0x0A] @ inner) partial
              @ [CHR 0x0A] @ indent @ ''}'')"

definition JSON_stringify :: "json \<Rightarrow> nat \<Rightarrow> string" where
  "JSON_stringify v space = serialize (replicate (min space 10) (CHR '' '')) [] v"

text \<open>Truthiness of a JSON value, for \<open>data && ...\<close>.\<close>

fun json_truthy :: "json \<Rightarrow> bool" where
  "json_truthy JNull = False"
| "json_truthy (JBool b) = b"
| "json_truthy (JNumber x) = (case x of Finite s m \<Rightarrow> m \<noteq> 0 | Infinity s \<Rightarrow> True | NaN \<Rightarrow> False)"
| "json_truthy (JString s) = (s \<noteq> [])"
| "json_truthy (JArray xs) = True"
| "json_truthy (JObject kvs) = True"


section \<open>The platform the program calls\<close>

subsection \<open>Percent-encoding\<close>

definition alphanumeric :: "char \<Rightarrow> bool" where
  "alphanumeric c =
     (c \<in> set (''ABCDEFGHIJKLMNOPQRSTUVWXYZ'' @ ''abcdefghijklmnopqrstuvwxyz'' @ ''0123456789''))"

definition percent_encode :: "char \<Rightarrow> string" where
  "percent_encode c = [CHR ''%'', hex_upper (of_char c div 16), hex_upper (of_char c)]"

text \<open>
  \<open>encodeURIComponent\<close> keeps the letters, the digits and \<open>- _ . ! ~ * ' ( )\<close>,
  writes every other byte of the UTF-8 encoding as \<open>%XX\<close>, and raises \<open>URIError\<close>
  on a lone surrogate. The message of that error is the engine's own; it is V8's here.
\<close>

datatype js_error = Error string | TypeError string | SyntaxError string | URIError string

fun message :: "js_error \<Rightarrow> string" where
  "message (Error m) = m"
| "message (TypeError m) = m"
| "message (SyntaxError m) = m"
| "message (URIError m) = m"

text \<open>A promise that has settled, or a call that returned or threw: \<open>Inl\<close> is the error.\<close>

type_synonym 'a promise = "js_error + 'a"

definition encodeURIComponent :: "string \<Rightarrow> string promise" where
  "encodeURIComponent s =
     (if lone_surrogate s then Inl (URIError ''URI malformed'')
      else Inr (concat (map (\<lambda>c. if alphanumeric c \<or> c \<in> set ''-_.!~*'' \<or> c \<in> set [CHR 0x27, CHR ''('', CHR '')'']
                                  then [c] else percent_encode c) s)))"

text \<open>
  The serializer of \<open>URLSearchParams\<close> (\<open>application/x-www-form-urlencoded\<close>): names
  and values are scalar value strings; letters, digits and \<open>* - . _\<close> are kept, a space
  becomes \<open>+\<close>, every other byte \<open>%XX\<close>; pairs are joined by \<open>&\<close>.
\<close>

definition form_encode :: "string \<Rightarrow> string" where
  "form_encode s =
     concat (map (\<lambda>c. if c = CHR '' '' then ''+''
                       else if alphanumeric c \<or> c \<in> set ''*-._'' then [c]
                       else percent_encode c) (to_USVString s))"

definition URLSearchParams_toString :: "(string \<times> string) list \<Rightarrow> string" where
  "URLSearchParams_toString params =
     join ''&'' (map (\<lambda>kv. form_encode (fst kv) @ ''='' @ form_encode (snd kv)) params)"

subsection \<open>fetch\<close>

text \<open>
  A headers object is a plain object: its properties in the order the language
  enumerates them, each name (case-sensitive) once. \<open>assign\<close> sets one property, in
  place when the object has it and at the end otherwise, and \<open>spread object source\<close>
  is the object literal \<open>{...object, ...source}\<close>.
\<close>

type_synonym headers = "(string \<times> string) list"

fun assign :: "string \<Rightarrow> string \<Rightarrow> headers \<Rightarrow> headers" where
  "assign name v [] = [(name, v)]"
| "assign name v (p # ps) = (if fst p = name then (name, v) # ps else p # assign name v ps)"

definition spread :: "headers \<Rightarrow> headers \<Rightarrow> headers" where
  "spread object source = fold (\<lambda>p. assign (fst p) (snd p)) source object"

text \<open>
  \<open>fetch\<close> fills a \<open>Headers\<close> list from the \<open>headers\<close> of its options, one entry
  for each property in order. There a name matches without regard to the case of its
  ASCII letters, a value has lost the blanks around it, and the value of a header is
  that of all the entries of its name, joined by a comma and a blank.
\<close>

definition byte_lowercase :: "string \<Rightarrow> string" where
  "byte_lowercase s =
     map (\<lambda>c. case map_of (zip ''ABCDEFGHIJKLMNOPQRSTUVWXYZ'' ''abcdefghijklmnopqrstuvwxyz'') c of
                Some l \<Rightarrow> l
              | None \<Rightarrow> c) s"

definition http_whitespace :: "char \<Rightarrow> bool" where
  "http_whitespace c = (c \<in> set [CHR 0x09, CHR 0x0A, CHR 0x0D, CHR 0x20])"

definition normalize_value :: "string \<Rightarrow> string" where
  "normalize_value v = rev (dropWhile http_whitespace (rev (dropWhile http_whitespace v)))"

definition Headers_get :: "headers \<Rightarrow> string \<Rightarrow> string option" where
  "Headers_get init name =
     (let entries = filter (\<lambda>p. byte_lowercase (fst p) = byte_lowercase name) init
      in if entries = [] then None else Some (join '', '' (map (\<lambda>p. normalize_value (snd p)) entries)))"

text \<open>The options object handed to \<open>fetch\<close>.\<close>

record RequestInit =
  http_method :: string
  http_headers :: headers
  body :: "string option"

text \<open>
  A response: its status, and what \<open>text()\<close> and \<open>json()\<close> settle to when the
  program awaits them.
\<close>

record Response =
  status :: nat
  statusText :: string
  body_text :: "string promise"
  body_json :: "json promise"

definition ok :: "Response \<Rightarrow> bool" where
  "ok response = (200 \<le> status response \<and> status response \<le> 299)"

text \<open>
  The network is a parameter of the model: \<open>fetch url options\<close> is what the call
  settles to. Every function that may reach the network returns, beside its result, the
  list of the \<open>fetch\<close> calls it made.
\<close>

type_synonym fetch = "string \<Rightarrow> RequestInit \<Rightarrow> Response promise"

type_synonym 'a io = "(string \<times> RequestInit) list \<times> 'a promise"

section \<open>The Request Forwarder\<close>

text \<open>\<open>headers?.[name]\<close>: \<open>undefined\<close> when there is no headers object or no such property.\<close>

definition lookup :: "headers option \<Rightarrow> string \<Rightarrow> string option" where
  "lookup headers name = (case headers of None \<Rightarrow> None | Some h \<Rightarrow> map_of h name)"

text \<open>
  The body of the \<open>try\<close> block of \<open>makeApiCall\<close>, a \<open>throw\<close> or a rejected
  \<open>await\<close> being the value \<open>Inl\<close>.
\<close>

definition makeApiCall_try ::
  "fetch \<Rightarrow> string \<Rightarrow> string \<Rightarrow> json option \<Rightarrow> headers option \<Rightarrow> json io" where
  "makeApiCall_try fetch endpoint method data headers =
     (let magentoUrl = lookup headers ''x-magento-domain'';
          bearerToken = lookup headers ''authorization''
      in if \<not> truthy magentoUrl \<or> \<not> truthy bearerToken
         then ([], Inl (Error ''Missing required headers: x-magento-domain and authorization''))
         else
           let token = (if prefix ''Bearer '' (the bearerToken) then the bearerToken
                        else ''Bearer '' @ the bearerToken);
               apiUrl = the magentoUrl @ ''/rest/V1/'' @ endpoint;
               requestOptions =
                 \<lparr> http_method = method,
                   http_headers =
                     spread [(''Authorization'', token),
                             (''Content-Type'', ''application/json''),
                             (''Accept'', ''application/json'')]
                       (case headers of None \<Rightarrow> [] | Some h \<Rightarrow> h),
                   body =
                     (case data of
                        Some d \<Rightarrow> if json_truthy d \<and> method \<noteq> ''GET''
                                  then Some (JSON_stringify d 0) else None
                      | None \<Rightarrow> None) \<rparr>;
               calls = [(apiUrl, requestOptions)]
           in case fetch apiUrl requestOptions of
                Inl error \<Rightarrow> (calls, Inl error)
              | Inr response \<Rightarrow>
                  if \<not> ok response
                  then (case body_text response of
                          Inl error \<Rightarrow> (calls, Inl error)
                        | Inr errorText \<Rightarrow>
                            (calls, Inl (Error (''API call failed: '' @ decimal (status response)
                               @ '' '' @ statusText response @ '' - '' @ errorText))))
                  else (calls, body_json response))"

text \<open>
  \<open>makeApiCall\<close>: the parameter \<open>method\<close> defaults to \<open>GET\<close>, and the \<open>catch\<close>
  clause wraps whatever the \<open>try\<close> block threw in a new \<open>Error\<close>.
\<close>

definition makeApiCall ::
  "fetch \<Rightarrow> string \<Rightarrow> string option \<Rightarrow> json option \<Rightarrow> headers option \<Rightarrow> json io" where
  "makeApiCall fetch endpoint method_arg data headers =
     (let method = (case method_arg of None \<Rightarrow> ''GET'' | Some m \<Rightarrow> m)
      in case makeApiCall_try fetch endpoint method data headers of
           (calls, Inl error) \<Rightarrow> (calls, Inl (Error (''API call error: '' @ message error)))
         | (calls, Inr result) \<Rightarrow> (calls, Inr result))"

section \<open>The tools\<close>

record content_block =
  block_type :: string
  block_text :: string

record tool_response =
  content :: "content_block list"

definition text_content :: "string \<Rightarrow> tool_response" where
  "text_content s = \<lparr> content = [\<lparr> block_type = ''text'', block_text = s \<rparr>] \<rparr>"

text \<open>
  A tool of the registry with its validated arguments; an optional argument that was not
  supplied is \<open>None\<close>. The remote-backed tools are those whose handler calls
  \<open>makeApiCall\<close>.
\<close>

datatype operation = Op_add | Op_subtract | Op_multiply | Op_divide

datatype remote_call =
    Get_product_by_sku string
  | Get_products_by_ids string
  | Search_products "string option" "number option" "number option"
  | Get_product_categories string
  | Get_bestsellers "string option" "number option" "string option"
  | Get_revenue "string option" "string option" "bool option"

datatype tool_call =
    Remote remote_call
  | Add number number
  | Calculate operation number number

subsection \<open>The remote-backed tools\<close>

text \<open>
  The \<open>URLSearchParams\<close> each handler builds, as its list of pairs. The defaults are
  those of the handler's parameter list; \<open>status\<close> is appended when it is truthy.
\<close>

definition search_products_params ::
  "string option \<Rightarrow> number option \<Rightarrow> number option \<Rightarrow> (string \<times> string) list" where
  "search_products_params query_arg page_size_arg current_page_arg =
     (let query = (case query_arg of None \<Rightarrow> [] | Some q \<Rightarrow> q);
          page_size = (case page_size_arg of None \<Rightarrow> literal 10 | Some n \<Rightarrow> n);
          current_page = (case current_page_arg of None \<Rightarrow> literal 1 | Some n \<Rightarrow> n)
      in [(''query'', query),
          (''pageSize'', Number_toString page_size),
          (''currentPage'', Number_toString current_page)])"

definition get_bestsellers_params ::
  "string option \<Rightarrow> number option \<Rightarrow> string option \<Rightarrow> (string \<times> string) list" where
  "get_bestsellers_params date_range_arg limit_arg status_arg =
     (let date_range = (case date_range_arg of None \<Rightarrow> ''today'' | Some d \<Rightarrow> d);
          limit = (case limit_arg of None \<Rightarrow> literal 10 | Some n \<Rightarrow> n);
          params = [(''dateRange'', date_range), (''limit'', Number_toString limit)]
      in if truthy status_arg then params @ [(''status'', the status_arg)] else params)"

definition get_revenue_params ::
  "string option \<Rightarrow> string option \<Rightarrow> bool option \<Rightarrow> (string \<times> string) list" where
  "get_revenue_params date_range_arg status_arg include_tax_arg =
     (let date_range = (case date_range_arg of None \<Rightarrow> ''today'' | Some d \<Rightarrow> d);
          include_tax = (case include_tax_arg of None \<Rightarrow> True | Some b \<Rightarrow> b);
          params = [(''dateRange'', date_range),
                    (''includeTax'', if include_tax then ''true'' else ''false'')]
      in if truthy status_arg then params @ [(''status'', the status_arg)] else params)"

text \<open>
  The first argument each handler passes to \<open>makeApiCall\<close>. Evaluating it can throw
  (\<open>encodeURIComponent\<close>), inside the handler's \<open>try\<close> block and before the call.
\<close>

fun endpoint :: "remote_call \<Rightarrow> string promise" where
  "endpoint (Get_product_by_sku sku) =
     (case encodeURIComponent sku of
        Inl error \<Rightarrow> Inl error
      | Inr encoded \<Rightarrow> Inr (''mcpdata/product/sku/'' @ encoded))"
| "endpoint (Get_products_by_ids ids) =
     (case encodeURIComponent ids of
        Inl error \<Rightarrow> Inl error
      | Inr encoded \<Rightarrow> Inr (''mcpdata/products/ids/'' @ encoded))"
| "endpoint (Search_products query page_size current_page) =
     Inr (''mcpdata/products/search?''
          @ URLSearchParams_toString (search_products_params query page_size current_page))"
| "endpoint (Get_product_categories sku) =
     (case encodeURIComponent sku of
        Inl error \<Rightarrow> Inl error
      | Inr encoded \<Rightarrow> Inr (''mcpdata/product/categories/'' @ encoded))"
| "endpoint (Get_bestsellers date_range limit status_arg) =
     Inr (''mcpdata/bestsellers?''
          @ URLSearchParams_toString (get_bestsellers_params date_range limit status_arg))"
| "endpoint (Get_revenue date_range status_arg include_tax) =
     Inr (''mcpdata/revenue?''
          @ URLSearchParams_toString (get_revenue_params date_range status_arg include_tax))"

text \<open>
  The six remote-backed handlers have one body and differ in the endpoint only: the
  \<open>try\<close> block awaits \<open>makeApiCall(endpoint, 'GET', null, headers)\<close> and returns the
  result pretty-printed; the \<open>catch\<close> clause returns the message of whatever was thrown.
\<close>

definition remote_handler :: "fetch \<Rightarrow> remote_call \<Rightarrow> headers option \<Rightarrow> tool_response io" where
  "remote_handler fetch call headers =
     (case (case endpoint call of
              Inl error \<Rightarrow> ([], Inl error)
            | Inr path \<Rightarrow> makeApiCall fetch path (Some ''GET'') (Some JNull) headers) of
        (calls, Inr result) \<Rightarrow> (calls, Inr (text_content (JSON_stringify result 2)))
      | (calls, Inl error) \<Rightarrow> (calls, Inr (text_content (''Error: '' @ message error))))"

subsection \<open>The arithmetic tools\<close>

definition add :: "number \<Rightarrow> number \<Rightarrow> tool_response promise" where
  "add a b = Inr (text_content (Number_toString (js_add a b)))"

text \<open>
  The \<open>switch\<close> of \<open>calculate\<close> either leaves with the division error (\<open>Inl\<close>) or
  assigns \<open>result\<close> (\<open>Inr\<close>), which the last statement returns as text.
\<close>

definition calculate :: "operation \<Rightarrow> number \<Rightarrow> number \<Rightarrow> tool_response promise" where
  "calculate operation a b =
     (case (case operation of
              Op_add \<Rightarrow> Inr (js_add a b)
            | Op_subtract \<Rightarrow> Inr (js_subtract a b)
            | Op_multiply \<Rightarrow> Inr (js_multiply a b)
            | Op_divide \<Rightarrow>
                if strict_equals b (literal 0)
                then Inl (text_content ''Error: Cannot divide by zero'')
                else Inr (js_divide a b)) of
        Inl early \<Rightarrow> Inr early
      | Inr result \<Rightarrow> Inr (text_content (Number_toString result)))"

subsection \<open>Dispatch\<close>

fun call_tool :: "fetch \<Rightarrow> tool_call \<Rightarrow> headers option \<Rightarrow> tool_response io" where
  "call_tool fetch (Add a b) headers = ([], add a b)"
| "call_tool fetch (Calculate operation a b) headers = ([], calculate operation a b)"
| "call_tool fetch (Remote call) headers = remote_handler fetch call headers"

section \<open>What a run did to the network\<close>

text \<open>
  The addresses a run fetched, and the \<open>Authorization\<close> header of the request of
  each of its \<open>fetch\<close> calls.
\<close>

definition urls_fetched :: "'a io \<Rightarrow> string list" where
  "urls_fetched run = map fst (fst run)"

definition authorization_sent :: "'a io \<Rightarrow> string option list" where
  "authorization_sent run =
     map (\<lambda>call. Headers_get (http_headers (snd call)) ''Authorization'') (fst run)"

section \<open>Sample environments\<close>

text \<open>A network that is down, and an upstream that answers every request alike.\<close>

definition offline :: fetch where
  "offline url options = Inl (TypeError ''fetch failed'')"

definition upstream :: "Response \<Rightarrow> fetch" where
  "upstream response url options = Inr response"

definition not_found :: Response where
  "not_found = \<lparr> status = 404, statusText = ''Not Found'', body_text = Inr ''not found'',
                  body_json = Inl (SyntaxError ''Unexpected token'') \<rparr>"


definition shop :: headers where
  "shop = [(''x-magento-domain'', ''https://shop.example''), (''authorization'', ''abc'')]"


section \<open>Evaluating the numbers of the source\<close>

text \<open>
  The literals \<open>0\<close>, \<open>1\<close> and \<open>10\<close> of the source are exact, and the decimal strings of
  \<open>1\<close>, \<open>5\<close> and \<open>10\<close> are the expected ones.
\<close>

lemmas round_defs = round_binary64_def exponent_of_def half_even_def scale_def Let_def

lemma literal_0: "literal 0 = Finite False 0"
  by (simp add: literal_def round_binary64_def)

lemma literal_1: "literal 1 = Finite False 1" "literal (Suc 0) = Finite False 1"
  by (simp_all add: literal_def round_defs)

lemma literal_10: "literal 10 = Finite False 10"
  by (simp add: literal_def round_defs)

lemma toString_1: "Number_toString (Finite False 1) = ''1''"
  by (simp add: Number_toString_def format_digits_def digits_for_def round_defs digit_def upt_rec)

lemma toString_5: "Number_toString (Finite False 5) = ''5''"
  by (simp add: Number_toString_def format_digits_def digits_for_def round_defs digit_def upt_rec)

lemma toString_10: "Number_toString (Finite False 10) = ''10''"
  by (simp add: Number_toString_def format_digits_def digits_for_def round_defs digit_def upt_rec)

lemma add_2_3: "js_add (literal 2) (literal 3) = Finite False 5"
  by (simp add: literal_def round_defs signed_def)

section \<open>Evaluating the encoders\<close>

lemma form_encode_samples:
  "form_encode ''dateRange'' = ''dateRange''" "form_encode ''limit'' = ''limit''"
  "form_encode ''status'' = ''status''" "form_encode ''includeTax'' = ''includeTax''"
  "form_encode ''query'' = ''query''" "form_encode ''pageSize'' = ''pageSize''"
  "form_encode ''currentPage'' = ''currentPage''"
  "form_encode ''10'' = ''10''" "form_encode ''1'' = ''1''" "form_encode [] = []"
  "form_encode ''last week'' = ''last+week''" "form_encode ''ytd'' = ''ytd''"
  by (simp_all add: form_encode_def alphanumeric_def surrogate_lead_def)

lemma form_encode_booleans:
  "form_encode ''true'' = ''true''" "form_encode ''false'' = ''false''"
  by (simp_all add: form_encode_def alphanumeric_def surrogate_lead_def)

lemma endpoint_sample: "endpoint (Get_product_by_sku ''A 1'') = Inr ''mcpdata/product/sku/A%201''"
  by (simp add: encodeURIComponent_def surrogate_lead_def alphanumeric_def percent_encode_def hex_upper_def)

lemma endpoint_malformed:
  "endpoint (Get_product_by_sku [CHR 0xED, CHR 0xA0, CHR 0x80]) = Inl (URIError ''URI malformed'')"
  by (simp add: encodeURIComponent_def surrogate_lead_def)


section \<open>Properties of the forwarder and of the handlers\<close>

text \<open>With a missing or empty header the forwarder throws before it fetches.\<close>

lemma makeApiCall_missing:
  "\<not> truthy (lookup headers ''x-magento-domain'') \<or> \<not> truthy (lookup headers ''authorization'')
   \<Longrightarrow> makeApiCall fetch path m data headers =
       ([], Inl (Error ''API call error: Missing required headers: x-magento-domain and authorization''))"
  by (auto simp add: makeApiCall_def makeApiCall_try_def Let_def)

text \<open>
  With both headers present and not empty, the \<open>try\<close> block makes one \<open>fetch\<close> call, to
  \<open>{domain}/rest/V1/{endpoint}\<close>, and goes on with what the call settles to.
\<close>

lemma makeApiCall_try_present:
  assumes "lookup headers ''x-magento-domain'' = Some domain" "domain \<noteq> []"
    and "lookup headers ''authorization'' = Some credential" "credential \<noteq> []"
  shows "makeApiCall_try fetch path method data headers =
     (let options =
            \<lparr> http_method = method,
              http_headers =
                spread [(''Authorization'', if prefix ''Bearer '' credential then credential
                                           else ''Bearer '' @ credential),
                        (''Content-Type'', ''application/json''),
                        (''Accept'', ''application/json'')]
                  (case headers of None \<Rightarrow> [] | Some h \<Rightarrow> h),
              body = (case data of
                        Some d \<Rightarrow> if json_truthy d \<and> method \<noteq> ''GET''
                                  then Some (JSON_stringify d 0) else None
                      | None \<Rightarrow> None) \<rparr>;
          calls = [(domain @ ''/rest/V1/'' @ path, options)]
      in case fetch (domain @ ''/rest/V1/'' @ path) options of
           Inl error \<Rightarrow> (calls, Inl error)
         | Inr response \<Rightarrow>
             if \<not> ok response
             then (case body_text response of
                     Inl error \<Rightarrow> (calls, Inl error)
                   | Inr errorText \<Rightarrow>
                       (calls, Inl (Error (''API call failed: '' @ decimal (status response)
                          @ '' '' @ statusText response @ '' - '' @ errorText))))
             else (calls, body_json response))"
  unfolding makeApiCall_try_def Let_def truthy_def
  by (simp only: assms option.case option.sel simp_thms if_False)

lemma fst_makeApiCall_try:
  assumes "lookup headers ''x-magento-domain'' = Some domain" "domain \<noteq> []"
    and "lookup headers ''authorization'' = Some credential" "credential \<noteq> []"
  shows "fst (makeApiCall_try fetch path method data headers) =
     [(domain @ ''/rest/V1/'' @ path,
       \<lparr> http_method = method,
         http_headers =
           spread [(''Authorization'', if prefix ''Bearer '' credential then credential
                                      else ''Bearer '' @ credential),
                   (''Content-Type'', ''application/json''),
                   (''Accept'', ''application/json'')]
             (case headers of None \<Rightarrow> [] | Some h \<Rightarrow> h),
         body = (case data of
                   Some d \<Rightarrow> if json_truthy d \<and> method \<noteq> ''GET''
                             then Some (JSON_stringify d 0) else None
                 | None \<Rightarrow> None) \<rparr>)]"
  unfolding makeApiCall_try_present [OF assms] Let_def
  by (simp split: sum.split)

lemma snd_makeApiCall_try:
  assumes "lookup headers ''x-magento-domain'' = Some domain" "domain \<noteq> []"
    and "lookup headers ''authorization'' = Some credential" "credential \<noteq> []"
    and "\<forall>options. fetch (domain @ ''/rest/V1/'' @ path) options = outcome"
  shows "snd (makeApiCall_try fetch path method data headers) =
     (case outcome of
        Inl error \<Rightarrow> Inl error
      | Inr response \<Rightarrow>
          if ok response then body_json response
          else (case body_text response of
                  Inl error \<Rightarrow> Inl error
                | Inr errorText \<Rightarrow>
                    Inl (Error (''API call failed: '' @ decimal (status response)
                                @ '' '' @ statusText response @ '' - '' @ errorText))))"
proof -
  have f: "fetch (domain @ ''/rest/V1/'' @ path) options = outcome" for options
    using assms(5) by blast
  show ?thesis
    unfolding makeApiCall_try_present [OF assms(1-4)] Let_def f
    by (cases outcome) (simp_all split: sum.split)
qed

text \<open>The \<open>catch\<close> clause keeps the calls made and rewraps the error.\<close>

lemma fst_makeApiCall:
  "fst (makeApiCall fetch path m data headers) =
   fst (makeApiCall_try fetch path (case m of None \<Rightarrow> ''GET'' | Some x \<Rightarrow> x) data headers)"
  by (simp add: makeApiCall_def Let_def split: prod.split sum.split)

lemma snd_makeApiCall:
  "snd (makeApiCall fetch path m data headers) =
   (case snd (makeApiCall_try fetch path (case m of None \<Rightarrow> ''GET'' | Some x \<Rightarrow> x) data headers) of
      Inl error \<Rightarrow> Inl (Error (''API call error: '' @ message error))
    | Inr result \<Rightarrow> Inr result)"
  by (simp add: makeApiCall_def Let_def split: prod.split sum.split)

text \<open>A handler either fails on its endpoint or forwards to \<open>makeApiCall\<close>.\<close>

lemma remote_handler_throw:
  "endpoint call = Inl error \<Longrightarrow>
   remote_handler fetch call headers = ([], Inr (text_content (''Error: '' @ message error)))"
  by (simp add: remote_handler_def)

lemma remote_handler_forward:
  "endpoint call = Inr path \<Longrightarrow>
   remote_handler fetch call headers =
     (case makeApiCall fetch path (Some ''GET'') (Some JNull) headers of
        (calls, Inr result) \<Rightarrow> (calls, Inr (text_content (JSON_stringify result 2)))
      | (calls, Inl error) \<Rightarrow> (calls, Inr (text_content (''Error: '' @ message error))))"
  by (simp add: remote_handler_def)

lemma fst_remote_handler:
  "endpoint call = Inr path \<Longrightarrow>
   fst (remote_handler fetch call headers) =
   fst (makeApiCall fetch path (Some ''GET'') (Some JNull) headers)"
  by (simp add: remote_handler_forward split: prod.split sum.split)

text \<open>The sample shop and the network that is down.\<close>

lemma shop_lookup:
  "lookup (Some shop) ''x-magento-domain'' = Some ''https://shop.example''"
  "lookup (Some shop) ''authorization'' = Some ''abc''"
  by (simp_all add: lookup_def shop_def)

lemma offline_sample:
  "snd (makeApiCall offline ''mcpdata/product/sku/A%201'' (Some ''GET'') (Some JNull) (Some shop)) =
     Inl (Error ''API call error: fetch failed'')"
  by (simp add: snd_makeApiCall offline_def
      snd_makeApiCall_try [OF shop_lookup(1) _ shop_lookup(2), where outcome = "Inl (TypeError ''fetch failed'')"])

section \<open>Integers are added and printed exactly\<close>

text \<open>
  Below \<open>2^53\<close> rounding leaves a natural number as it is, and below \<open>10^15\<close>
  \<open>Number::toString\<close> prints its decimal digits.
\<close>

declare digits_in.simps [simp del] decimal.simps [simp del]




lemma half_even_of_int: "half_even (of_int x) = x"
  by (simp add: half_even_def)

























declare digits_in.simps [simp] decimal.simps [simp]

section \<open>The headers that are sent\<close>

lemma assign_names: "fst ` set (assign name v object) = insert name (fst ` set object)"
  by (induction object) auto

lemma filter_assign_other:
  "\<not> P name \<Longrightarrow> filter (\<lambda>p. P (fst p)) (assign name v object) = filter (\<lambda>p. P (fst p)) object"
  by (induction object) auto

lemma filter_assign_new:
  "P name \<Longrightarrow> name \<notin> fst ` set object \<Longrightarrow>
   filter (\<lambda>p. P (fst p)) (assign name v object) = filter (\<lambda>p. P (fst p)) object @ [(name, v)]"
  by (induction object) auto

lemma spread_names: "fst ` set (spread object source) = fst ` set object \<union> fst ` set source"
  unfolding spread_def
  by (induction source arbitrary: object) (auto simp add: assign_names)

lemma filter_spread_other:
  "\<forall>p \<in> set source. \<not> P (fst p) \<Longrightarrow>
   filter (\<lambda>p. P (fst p)) (spread object source) = filter (\<lambda>p. P (fst p)) object"
  unfolding spread_def
  by (induction source arbitrary: object) (simp_all add: filter_assign_other)

lemma spread_append: "spread object (xs @ ys) = spread (spread object xs) ys"
  by (simp add: spread_def)

lemma spread_Cons: "spread object (p # ps) = spread (assign (fst p) (snd p) object) ps"
  by (simp add: spread_def)

lemma filter_spread_one:
  assumes "map_of source name = Some v" "distinct (map fst source)" "P name"
    and "\<forall>n \<in> fst ` set source. P n \<longrightarrow> n = name"
    and "name \<notin> fst ` set object"
  shows "filter (\<lambda>p. P (fst p)) (spread object source) = filter (\<lambda>p. P (fst p)) object @ [(name, v)]"
proof -
  from assms(1) have "(name, v) \<in> set source" by (rule map_of_SomeD)
  then obtain xs ys where s: "source = xs @ (name, v) # ys" by (auto simp add: in_set_conv_decomp)
  with assms(2) have nx: "name \<notin> fst ` set xs" and ny: "name \<notin> fst ` set ys" by auto
  have px: "\<forall>p \<in> set xs. \<not> P (fst p)" using assms(4) nx s by force
  have py: "\<forall>p \<in> set ys. \<not> P (fst p)" using assms(4) ny s by force
  have "name \<notin> fst ` set (spread object xs)" using nx assms(5) by (simp add: spread_names)
  then have "filter (\<lambda>p. P (fst p)) (assign name v (spread object xs)) =
      filter (\<lambda>p. P (fst p)) (spread object xs) @ [(name, v)]"
    using assms(3) by (rule filter_assign_new [where P = P, rotated])
  then show ?thesis
    unfolding s spread_append spread_Cons
    by (simp add: filter_spread_other [where P = P, OF py] filter_spread_other [where P = P, OF px])
qed

lemma lowercase_names:
  "byte_lowercase ''Authorization'' = ''authorization''"
  "byte_lowercase ''authorization'' = ''authorization''"
  "byte_lowercase ''Content-Type'' = ''content-type''"
  "byte_lowercase ''Accept'' = ''accept''"
  "byte_lowercase ''x-magento-domain'' = ''x-magento-domain''"
  by (simp_all add: byte_lowercase_def)

lemma normalize_samples:
  "normalize_value ''abc'' = ''abc''" "normalize_value ''Bearer abc'' = ''Bearer abc''"
  "normalize_value ''Basic xyz'' = ''Basic xyz''"
  by (simp_all add: normalize_value_def http_whitespace_def)

lemma authorization_header_overridden:
  "authorization_sent (makeApiCall offline ''mcpdata/revenue'' None None
     (Some [(''x-magento-domain'', ''https://shop.example''), (''authorization'', ''abc''),
            (''Authorization'', ''Basic xyz'')])) =
     [Some ''Basic xyz, abc'']"
proof -
  let ?h = "[(''x-magento-domain'', ''https://shop.example''), (''authorization'', ''abc''),
             (''Authorization'', ''Basic xyz'')]"
  have l: "lookup (Some ?h) ''x-magento-domain'' = Some ''https://shop.example''"
          "lookup (Some ?h) ''authorization'' = Some ''abc''"
    by (simp_all add: lookup_def)
  show ?thesis
    unfolding authorization_sent_def fst_makeApiCall
    by (subst fst_makeApiCall_try [OF l(1) _ l(2)]) (simp_all add: spread_def Headers_get_def lowercase_names
        byte_lowercase_def normalize_samples)
qed

section \<open>The claims\<close>

text \<open>
  C1, as amended. When the per-call headers lack the domain (\<open>x-magento-domain\<close>) or the
  credential (\<open>authorization\<close>), or hold an empty one, a remote-backed tool makes no
  \<open>fetch\<close> call and returns a single text block \<open>Error: ...\<close>. Its text is
  \<open>Error: API call error: Missing required headers: x-magento-domain and authorization\<close>,
  which contains \<open>Missing required headers\<close>, whenever the endpoint could be built; when
  building it throws (\<open>encodeURIComponent\<close> on a \<open>sku\<close> or \<open>ids\<close> with a lone
  surrogate), the forwarder is never entered and the text is the message of that error.
\<close>

theorem missing_headers_no_fetch:
  assumes "\<not> truthy (lookup headers ''x-magento-domain'') \<or> \<not> truthy (lookup headers ''authorization'')"
  shows "call_tool fetch (Remote call) headers =
           ([], Inr (text_content (''Error: '' @
              (case endpoint call of
                 Inl error \<Rightarrow> message error
               | Inr path \<Rightarrow> ''API call error: Missing required headers: x-magento-domain and authorization''))))
         \<and> sublist ''Missing required headers''
              ''Error: API call error: Missing required headers: x-magento-domain and authorization''"
proof (cases "endpoint call")
  case (Inl error)
  then show ?thesis by (simp add: remote_handler_throw sublist_Cons_right)
next
  case (Inr path)
  then show ?thesis
    by (simp add: remote_handler_forward makeApiCall_missing [OF assms] sublist_Cons_right)
qed

theorem missing_headers_no_fetch_witness:
  "\<not> truthy (lookup None ''x-magento-domain'') \<and>
   call_tool offline (Remote (Get_bestsellers (Some ''last week'') None None)) None =
     ([], Inr (text_content ''Error: API call error: Missing required headers: x-magento-domain and authorization''))"
  using missing_headers_no_fetch [of None offline "Get_bestsellers (Some ''last week'') None None"]
  by (simp add: lookup_def truthy_def)

text \<open>
  The claim as it was stated fails for \<open>get_product_by_sku\<close> called without headers on
  a \<open>sku\<close> that is one lone surrogate (\<open>U+D800\<close>): the text is the message of the
  \<open>URIError\<close>, and \<open>Missing required headers\<close> is not in it.
\<close>

theorem missing_headers_counterexample:
  "call_tool offline (Remote (Get_product_by_sku [CHR 0xED, CHR 0xA0, CHR 0x80])) None =
     ([], Inr (text_content ''Error: URI malformed''))
   \<and> \<not> sublist ''Missing required headers'' ''Error: URI malformed''"
  by (simp add: remote_handler_def encodeURIComponent_def surrogate_lead_def sublist_Cons_right)

text \<open>
  C2. Every tool, on every input and whatever the network does, returns a response (it
  never throws) whose content is a single block of type \<open>text\<close>. A failure is returned
  as the text \<open>Error: {message}\<close>: when evaluating the endpoint throws \<open>error\<close>, and
  when the forwarder throws \<open>error\<close>, the text is \<open>Error: \<close> followed by the message of
  \<open>error\<close>.
\<close>

theorem handlers_never_throw:
  "(\<exists>s. snd (call_tool fetch call headers) = Inr (text_content s)
        \<and> content (text_content s) = [\<lparr> block_type = ''text'', block_text = s \<rparr>])
   \<and> (\<forall>error. endpoint rc = Inl error \<longrightarrow>
          snd (call_tool fetch (Remote rc) headers) = Inr (text_content (''Error: '' @ message error)))
   \<and> (\<forall>path error.
          endpoint rc = Inr path
          \<and> snd (makeApiCall fetch path (Some ''GET'') (Some JNull) headers) = Inl error \<longrightarrow>
          snd (call_tool fetch (Remote rc) headers) = Inr (text_content (''Error: '' @ message error)))"
proof (intro conjI allI impI)
  show "\<exists>s. snd (call_tool fetch call headers) = Inr (text_content s)
          \<and> content (text_content s) = [\<lparr> block_type = ''text'', block_text = s \<rparr>]"
  proof (cases call)
    case (Remote r)
    show ?thesis
    proof (cases "endpoint r")
      case (Inl error)
      with Remote show ?thesis by (simp add: remote_handler_throw text_content_def)
    next
      case (Inr path)
      obtain calls outcome where
        m: "makeApiCall fetch path (Some ''GET'') (Some JNull) headers = (calls, outcome)"
        by (cases "makeApiCall fetch path (Some ''GET'') (Some JNull) headers")
      show ?thesis
        using Remote Inr m
        by (cases outcome) (simp_all add: remote_handler_forward text_content_def)
    qed
  next
    case (Add a b)
    then show ?thesis by (simp add: add_def text_content_def)
  next
    case (Calculate operation a b)
    then show ?thesis
      by (cases operation) (simp_all add: calculate_def text_content_def)
  qed
next
  fix error assume "endpoint rc = Inl error"
  then show "snd (call_tool fetch (Remote rc) headers) = Inr (text_content (''Error: '' @ message error))"
    by (simp add: remote_handler_throw)
next
  fix path error
  assume a: "endpoint rc = Inr path
             \<and> snd (makeApiCall fetch path (Some ''GET'') (Some JNull) headers) = Inl error"
  obtain calls outcome where
    m: "makeApiCall fetch path (Some ''GET'') (Some JNull) headers = (calls, outcome)"
    by (cases "makeApiCall fetch path (Some ''GET'') (Some JNull) headers")
  with a show "snd (call_tool fetch (Remote rc) headers) = Inr (text_content (''Error: '' @ message error))"
    by (simp add: remote_handler_forward)
qed

theorem handlers_never_throw_witness:
  "snd (call_tool offline (Remote (Get_product_by_sku ''A 1'')) (Some shop)) =
     Inr (text_content ''Error: API call error: fetch failed'')"
  using handlers_never_throw [of offline "Remote (Get_product_by_sku ''A 1'')" "Some shop"
          "Get_product_by_sku ''A 1''"]
        endpoint_sample offline_sample
  by simp

text \<open>
  C3. What the code sends is not what the claim says. With the domain and a credential
  present and not empty, the forwarder makes one \<open>fetch\<close> call whose options hold the
  computed \<open>Authorization\<close> (the credential when it starts with \<open>Bearer \<close>, otherwise
  \<open>Bearer \<close> followed by it) and, copied by the spread, the caller's own
  \<open>authorization\<close> with the credential as it came. The two names differ in case only,
  so the \<open>Authorization\<close> header of the request is the computed value, a comma and a
  blank, and the credential again: \<open>Bearer abc, abc\<close> for the credential \<open>abc\<close>.
  This is shown for caller headers with no other name that is \<open>authorization\<close> up to
  case.
\<close>

theorem authorization_header_sent:
  assumes "map_of h ''x-magento-domain'' = Some domain" "domain \<noteq> []"
    and "map_of h ''authorization'' = Some credential" "credential \<noteq> []"
    and "distinct (map fst h)"
    and "\<forall>name \<in> fst ` set h. byte_lowercase name = ''authorization'' \<longrightarrow> name = ''authorization''"
  shows "authorization_sent (makeApiCall fetch path m data (Some h)) =
           [Some (normalize_value (if prefix ''Bearer '' credential then credential
                                   else ''Bearer '' @ credential)
                  @ '', '' @ normalize_value credential)]"
proof -
  let ?token = "if prefix ''Bearer '' credential then credential else ''Bearer '' @ credential"
  let ?object = "[(''Authorization'', ?token), (''Content-Type'', ''application/json''),
                  (''Accept'', ''application/json'')]"
  have l: "lookup (Some h) ''x-magento-domain'' = Some domain"
          "lookup (Some h) ''authorization'' = Some credential"
    using assms by (simp_all add: lookup_def)
  have "filter (\<lambda>p. byte_lowercase (fst p) = ''authorization'') (spread ?object h) =
        filter (\<lambda>p. byte_lowercase (fst p) = ''authorization'') ?object @ [(''authorization'', credential)]"
    using assms(3,5,6)
    by (intro filter_spread_one [where P = "\<lambda>n. byte_lowercase n = ''authorization''"])
       (simp_all add: lowercase_names)
  then have "Headers_get (spread ?object h) ''Authorization'' =
        Some (normalize_value ?token @ '', '' @ normalize_value credential)"
    by (simp add: Headers_get_def lowercase_names)
  then show ?thesis
    unfolding authorization_sent_def fst_makeApiCall
      fst_makeApiCall_try [OF l(1) assms(2) l(2) assms(4)]
    by simp
qed

theorem authorization_header_sent_witness:
  "authorization_sent (makeApiCall offline ''mcpdata/revenue'' None None (Some shop)) =
     [Some ''Bearer abc, abc'']
   \<and> authorization_sent (makeApiCall offline ''mcpdata/revenue'' None None
        (Some [(''x-magento-domain'', ''https://shop.example''), (''authorization'', ''Bearer abc'')])) =
     [Some ''Bearer abc, Bearer abc'']"
  using authorization_header_sent [of shop "''https://shop.example''" "''abc''" offline
          "''mcpdata/revenue''" None None]
        authorization_header_sent [of "[(''x-magento-domain'', ''https://shop.example''),
            (''authorization'', ''Bearer abc'')]" "''https://shop.example''" "''Bearer abc''" offline
          "''mcpdata/revenue''" None None]
  by (simp add: shop_def lowercase_names normalize_samples)



text \<open>
  C5. When the upstream answers with a status outside \<open>200..299\<close> and a body that reads
  as the text \<open>errorText\<close>, the forwarder throws an error whose message is
  \<open>API call error: API call failed: {status} {statusText} - {errorText}\<close>, which
  contains the status code, the status text and the body. Whatever the \<open>try\<close> block of
  the forwarder throws is thrown again with \<open>API call error: \<close> before its message, so
  every error of the forwarder starts with that prefix.
\<close>

theorem upstream_failure:
  "(lookup headers ''x-magento-domain'' = Some domain \<and> domain \<noteq> []
    \<and> lookup headers ''authorization'' = Some credential \<and> credential \<noteq> []
    \<and> (\<forall>options. fetch (domain @ ''/rest/V1/'' @ path) options = Inr response)
    \<and> \<not> ok response \<and> body_text response = Inr errorText \<longrightarrow>
      snd (makeApiCall fetch path m data headers) =
        Inl (Error (''API call error: API call failed: '' @ decimal (status response)
                    @ '' '' @ statusText response @ '' - '' @ errorText)))
   \<and> sublist (decimal (status response))
        (''API call error: API call failed: '' @ decimal (status response)
         @ '' '' @ statusText response @ '' - '' @ errorText)
   \<and> sublist (statusText response)
        (''API call error: API call failed: '' @ decimal (status response)
         @ '' '' @ statusText response @ '' - '' @ errorText)
   \<and> sublist errorText
        (''API call error: API call failed: '' @ decimal (status response)
         @ '' '' @ statusText response @ '' - '' @ errorText)
   \<and> (\<forall>error. snd (makeApiCall_try fetch path (case m of None \<Rightarrow> ''GET'' | Some x \<Rightarrow> x) data headers)
                  = Inl error \<longrightarrow>
          snd (makeApiCall fetch path m data headers) = Inl (Error (''API call error: '' @ message error)))
   \<and> (\<forall>e. snd (makeApiCall fetch path m data headers) = Inl e \<longrightarrow>
          prefix ''API call error: '' (message e))"
proof (intro conjI allI impI)
  assume a: "lookup headers ''x-magento-domain'' = Some domain \<and> domain \<noteq> []
    \<and> lookup headers ''authorization'' = Some credential \<and> credential \<noteq> []
    \<and> (\<forall>options. fetch (domain @ ''/rest/V1/'' @ path) options = Inr response)
    \<and> \<not> ok response \<and> body_text response = Inr errorText"
  then have "snd (makeApiCall_try fetch path (case m of None \<Rightarrow> ''GET'' | Some x \<Rightarrow> x) data headers) =
      Inl (Error (''API call failed: '' @ decimal (status response)
                  @ '' '' @ statusText response @ '' - '' @ errorText))"
    by (simp add: snd_makeApiCall_try [where outcome = "Inr response"])
  then show "snd (makeApiCall fetch path m data headers) =
        Inl (Error (''API call error: API call failed: '' @ decimal (status response)
                    @ '' '' @ statusText response @ '' - '' @ errorText))"
    by (simp add: snd_makeApiCall)
next
  show "sublist (decimal (status response))
        (''API call error: API call failed: '' @ decimal (status response)
         @ '' '' @ statusText response @ '' - '' @ errorText)"
    unfolding sublist_def by blast
next
  show "sublist (statusText response)
        (''API call error: API call failed: '' @ decimal (status response)
         @ '' '' @ statusText response @ '' - '' @ errorText)"
    unfolding sublist_def
    by (rule exI [of _ "''API call error: API call failed: '' @ decimal (status response) @ '' ''"],
        rule exI [of _ "'' - '' @ errorText"]) simp
next
  show "sublist errorText
        (''API call error: API call failed: '' @ decimal (status response)
         @ '' '' @ statusText response @ '' - '' @ errorText)"
    unfolding sublist_def
    by (rule exI [of _ "''API call error: API call failed: '' @ decimal (status response) @ '' ''
                         @ statusText response @ '' - ''"],
        rule exI [of _ "[]"]) simp
next
  fix error
  assume "snd (makeApiCall_try fetch path (case m of None \<Rightarrow> ''GET'' | Some x \<Rightarrow> x) data headers) = Inl error"
  then show "snd (makeApiCall fetch path m data headers) = Inl (Error (''API call error: '' @ message error))"
    by (simp add: snd_makeApiCall)
next
  fix e assume "snd (makeApiCall fetch path m data headers) = Inl e"
  then show "prefix ''API call error: '' (message e)"
    by (auto simp add: snd_makeApiCall split: sum.splits)
qed

theorem upstream_failure_witness:
  "snd (makeApiCall (upstream not_found) ''mcpdata/product/sku/A1'' None None (Some shop)) =
     Inl (Error ''API call error: API call failed: 404 Not Found - not found'')
   \<and> sublist ''404'' ''API call error: API call failed: 404 Not Found - not found''
   \<and> sublist ''not found'' ''API call error: API call failed: 404 Not Found - not found''"
  using upstream_failure [of "Some shop" "''https://shop.example''" "''abc''" "upstream not_found"
          "''mcpdata/product/sku/A1''" not_found "''not found''" None None]
  by (simp add: shop_lookup upstream_def not_found_def ok_def digit_def)

text \<open>
  C6. For every number \<open>a\<close>, \<open>calculate\<close> with the operation \<open>divide\<close> and \<open>b\<close> zero
  (of either sign) returns, without throwing and without a network call, a response
  whose content is the single text block \<open>Error: Cannot divide by zero\<close>.
\<close>

theorem divide_by_zero:
  "calculate Op_divide a (literal 0) = Inr (text_content ''Error: Cannot divide by zero'')
   \<and> calculate Op_divide a (Finite s 0) = Inr (text_content ''Error: Cannot divide by zero'')
   \<and> call_tool fetch (Calculate Op_divide a (literal 0)) headers =
       ([], Inr (text_content ''Error: Cannot divide by zero''))
   \<and> content (text_content ''Error: Cannot divide by zero'') =
       [\<lparr> block_type = ''text'', block_text = ''Error: Cannot divide by zero'' \<rparr>]"
  by (simp add: calculate_def literal_0 text_content_def)

theorem divide_by_zero_witness:
  "call_tool offline (Calculate Op_divide (literal 10) (literal 0)) None =
     ([], Inr (text_content ''Error: Cannot divide by zero''))"
  using divide_by_zero [of "literal 10" False offline None]
  by simp

text \<open>
  C7. \<open>get_bestsellers\<close> called with a date range only builds the query string
  \<open>dateRange={the date range, form-encoded}&limit=10\<close>, which for \<open>last week\<close> is
  \<open>dateRange=last+week&limit=10\<close>, with no parameter \<open>status\<close>. Whatever the arguments,
  the parameters are \<open>dateRange\<close>, \<open>limit\<close> and then \<open>status\<close> exactly when a status was
  provided and is not empty.
\<close>

theorem bestsellers_query:
  "endpoint (Get_bestsellers (Some date_range) None None) =
     Inr (''mcpdata/bestsellers?dateRange='' @ form_encode date_range @ ''&limit=10'')
   \<and> endpoint (Get_bestsellers (Some ''last week'') None None) =
     Inr ''mcpdata/bestsellers?dateRange=last+week&limit=10''
   \<and> map fst (get_bestsellers_params (Some date_range) None None) = [''dateRange'', ''limit'']
   \<and> map fst (get_bestsellers_params date_range_arg limit_arg status_arg) =
     [''dateRange'', ''limit''] @ (if truthy status_arg then [''status''] else [])"
  by (simp add: get_bestsellers_params_def URLSearchParams_toString_def truthy_def literal_10
      toString_10 form_encode_samples)

theorem bestsellers_query_witness:
  "urls_fetched (call_tool offline (Remote (Get_bestsellers (Some ''last week'') None None)) (Some shop)) =
     [''https://shop.example/rest/V1/mcpdata/bestsellers?dateRange=last+week&limit=10'']"
proof -
  have e: "endpoint (Get_bestsellers (Some ''last week'') None None) =
             Inr ''mcpdata/bestsellers?dateRange=last+week&limit=10''"
    using bestsellers_query [of "''last week''" None None None] by blast
  have "fst (makeApiCall_try offline ''mcpdata/bestsellers?dateRange=last+week&limit=10'' ''GET''
               (Some JNull) (Some shop)) =
          [(''https://shop.example'' @ ''/rest/V1/'' @ ''mcpdata/bestsellers?dateRange=last+week&limit=10'',
            \<lparr> http_method = ''GET'',
              http_headers =
                spread [(''Authorization'', if prefix ''Bearer '' ''abc'' then ''abc'' else ''Bearer '' @ ''abc''),
                        (''Content-Type'', ''application/json''),
                        (''Accept'', ''application/json'')]
                  (case Some shop of None \<Rightarrow> [] | Some h \<Rightarrow> h),
              body = (case Some JNull of
                        Some d \<Rightarrow> if json_truthy d \<and> ''GET'' \<noteq> ''GET''
                                  then Some (JSON_stringify d 0) else None
                      | None \<Rightarrow> None) \<rparr>)]"
    by (rule fst_makeApiCall_try [OF shop_lookup(1) _ shop_lookup(2)]) simp_all
  then show ?thesis
    by (simp add: urls_fetched_def fst_remote_handler [OF e] fst_makeApiCall)
qed

text \<open>
  C8. \<open>search_products\<close> called with no argument builds the query string
  \<open>query=&pageSize=10&currentPage=1\<close>. Whatever the arguments, the parameters are
  \<open>query\<close>, \<open>pageSize\<close> and \<open>currentPage\<close>, in this order, with the defaults for the
  arguments that were not supplied.
\<close>

theorem search_query:
  "endpoint (Search_products None None None) =
     Inr ''mcpdata/products/search?query=&pageSize=10&currentPage=1''
   \<and> map fst (search_products_params query page_size current_page) =
     [''query'', ''pageSize'', ''currentPage'']
   \<and> endpoint (Search_products query page_size current_page) =
     Inr (''mcpdata/products/search?query='' @ form_encode (case query of None \<Rightarrow> [] | Some q \<Rightarrow> q)
          @ ''&pageSize='' @ form_encode (Number_toString (case page_size of None \<Rightarrow> literal 10 | Some n \<Rightarrow> n))
          @ ''&currentPage='' @ form_encode (Number_toString (case current_page of None \<Rightarrow> literal 1 | Some n \<Rightarrow> n)))"
  by (simp add: search_products_params_def URLSearchParams_toString_def literal_10
      literal_1 toString_10 toString_1 form_encode_samples)

theorem search_query_witness:
  "endpoint (Search_products (Some []) (Some (literal 10)) None) =
     Inr ''mcpdata/products/search?query=&pageSize=10&currentPage=1''"
  using search_query [of "Some []" "Some (literal 10)" None]
  by (simp add: literal_10 literal_1 toString_10 toString_1 form_encode_samples)




text \<open>
  C10. In \<open>get_bestsellers\<close> and in \<open>get_revenue\<close> an empty \<open>status\<close> is treated as
  an absent one: the parameters, and so the endpoint, are those of the call without
  \<open>status\<close>, and no parameter \<open>status\<close> is among them.
\<close>

theorem empty_status_omitted:
  "get_bestsellers_params date_range limit (Some []) = get_bestsellers_params date_range limit None
   \<and> get_revenue_params date_range (Some []) include_tax = get_revenue_params date_range None include_tax
   \<and> endpoint (Get_bestsellers date_range limit (Some [])) = endpoint (Get_bestsellers date_range limit None)
   \<and> endpoint (Get_revenue date_range (Some []) include_tax) = endpoint (Get_revenue date_range None include_tax)
   \<and> map fst (get_bestsellers_params date_range limit (Some [])) = [''dateRange'', ''limit'']
   \<and> map fst (get_revenue_params date_range (Some []) include_tax) = [''dateRange'', ''includeTax'']"
  by (simp add: get_bestsellers_params_def get_revenue_params_def truthy_def)

theorem empty_status_omitted_witness:
  "endpoint (Get_bestsellers (Some ''ytd'') None (Some [])) = Inr ''mcpdata/bestsellers?dateRange=ytd&limit=10''
   \<and> endpoint (Get_revenue (Some ''ytd'') (Some []) None) = Inr ''mcpdata/revenue?dateRange=ytd&includeTax=true''"
  using empty_status_omitted [of "Some ''ytd''" None None]
  by (simp add: get_bestsellers_params_def get_revenue_params_def URLSearchParams_toString_def
      truthy_def literal_10 toString_10 form_encode_samples form_encode_booleans)

end
